theory Spec2Isabelle
  imports Main
begin

section \<open>Values, text and integer conversion\<close>

text \<open>
  The program is \<^verbatim>\<open>src/user_management_system.py\<close>. The values that travel through the
  store are Python integers and strings. Text is modelled as \<^typ>\<open>string\<close>: a \<^typ>\<open>char\<close> is
  a Unicode code point below 256 (ASCII and the Latin-1 supplement), and \<^verbatim>\<open>int()\<close> and
  \<^verbatim>\<open>str.lower()\<close> are modelled on the whole of that range. Text with a code point of 256
  or more is not covered.
\<close>

datatype pyval = PInt int | PStr string

datatype error = ValueError | KeyError

text \<open>The white space \<^verbatim>\<open>int()\<close> skips around a literal: tab, line feed, vertical tab, form
  feed, carriage return and the blank (9..13 and 32), and the two white-space characters
  above ASCII, next line (0x85) and no-break space (0xA0), which \<^verbatim>\<open>int()\<close> turns into
  blanks before it parses. The separators 0x1C..0x1F are white space for \<^verbatim>\<open>str.isspace\<close>
  but not for \<^verbatim>\<open>int()\<close>: a literal next to one of them is rejected.\<close>

definition is_space :: "char \<Rightarrow> bool" where
  "is_space c =
     (let n = (of_char c :: nat) in (9 \<le> n \<and> n \<le> 13) \<or> n = 32 \<or> n = 133 \<or> n = 160)"

definition strip :: "string \<Rightarrow> string" where
  "strip s = rev (dropWhile is_space (rev (dropWhile is_space s)))"

definition is_digit :: "char \<Rightarrow> bool" where
  "is_digit c = (let n = (of_char c :: nat) in 48 \<le> n \<and> n \<le> 57)"

definition digit_val :: "char \<Rightarrow> nat" where
  "digit_val c = (of_char c :: nat) - 48"

text \<open>The digits of a decimal literal as \<^verbatim>\<open>int()\<close> reads them: at least one digit, and a
  single underscore allowed between two digits.\<close>

fun py_digits :: "nat \<Rightarrow> string \<Rightarrow> nat option" where
  "py_digits acc [] = None"
| "py_digits acc [c] = (if is_digit c then Some (10 * acc + digit_val c) else None)"
| "py_digits acc (c # d # ds) =
     (if is_digit c
      then (if d = CHR ''_'' then py_digits (10 * acc + digit_val c) ds
            else py_digits (10 * acc + digit_val c) (d # ds))
      else None)"

text \<open>\<^verbatim>\<open>int(x)\<close>: an integer is returned as it is; a string is stripped of surrounding
  white space, may carry one sign, and must then be a decimal literal. Anything else raises
  \<^verbatim>\<open>ValueError\<close>.\<close>

definition py_int :: "pyval \<Rightarrow> error + int" where
  "py_int v =
     (case v of
        PInt n \<Rightarrow> Inr n
      | PStr s \<Rightarrow>
          (case strip s of
             [] \<Rightarrow> Inl ValueError
           | c # cs \<Rightarrow>
               if c = CHR ''-'' then
                 (case py_digits 0 cs of None \<Rightarrow> Inl ValueError | Some n \<Rightarrow> Inr (- int n))
               else if c = CHR ''+'' then
                 (case py_digits 0 cs of None \<Rightarrow> Inl ValueError | Some n \<Rightarrow> Inr (int n))
               else
                 (case py_digits 0 (c # cs) of None \<Rightarrow> Inl ValueError | Some n \<Rightarrow> Inr (int n))))"

text \<open>\<^verbatim>\<open>str(x)\<close>: a string is itself, an integer is its decimal numeral.\<close>

definition digit_char :: "nat \<Rightarrow> char" where
  "digit_char d = char_of (48 + d)"

fun str_nat :: "nat \<Rightarrow> string" where
  "str_nat n = (if n < 10 then [digit_char n] else str_nat (n div 10) @ [digit_char (n mod 10)])"

declare str_nat.simps [simp del]

definition str_int :: "int \<Rightarrow> string" where
  "str_int i = (if i < 0 then CHR ''-'' # str_nat (nat (- i)) else str_nat (nat i))"

definition py_str :: "pyval \<Rightarrow> string" where
  "py_str v = (case v of PInt n \<Rightarrow> str_int n | PStr s \<Rightarrow> s)"

text \<open>\<^verbatim>\<open>str.lower\<close>, character by character: the capitals A..Z, and above ASCII the
  capitals 0xC0..0xDE but for the multiplication sign 0xD7, move up by 32; every other
  code point below 256 is its own lower case.\<close>

definition lower_char :: "char \<Rightarrow> char" where
  "lower_char c =
     (let n = (of_char c :: nat) in
      if (65 \<le> n \<and> n \<le> 90) \<or> (192 \<le> n \<and> n \<le> 214) \<or> (216 \<le> n \<and> n \<le> 222)
      then char_of (n + 32) else c)"

definition lower :: "string \<Rightarrow> string" where
  "lower s = map lower_char s"

section \<open>The data model\<close>

text \<open>
  \<^verbatim>\<open>User\<close> is a dataclass with five fields. Nothing in the program converts a value
  assigned by \<^verbatim>\<open>setattr\<close> (other than \<^verbatim>\<open>age\<close>), so every field holds a \<^typ>\<open>pyval\<close>.
  The class has no slots: \<^verbatim>\<open>setattr\<close> with any other name adds an attribute to the
  instance, kept in \<open>attrs\<close>.
\<close>

record user =
  srno :: pyval
  name :: pyval
  age :: pyval
  gender :: pyval
  occupation :: pyval
  attrs :: "(string \<times> pyval) list"

text \<open>The equality the dataclass generates compares the five fields, and only them.\<close>

definition user_eq :: "user \<Rightarrow> user \<Rightarrow> bool" where
  "user_eq u v =
     (srno u = srno v \<and> name u = name v \<and> age u = age v \<and> gender u = gender v
      \<and> occupation u = occupation v)"

text \<open>
  Besides its fields and the attributes assigned to it, a \<^verbatim>\<open>User\<close> has the attributes
  Python gives every object and class (\<^verbatim>\<open>__class__\<close>, \<^verbatim>\<open>__dict__\<close>, \<^verbatim>\<open>__doc__\<close>,
  \<^verbatim>\<open>__module__\<close>, ...). Each of their names starts with two underscores. Of these only
  \<^verbatim>\<open>__doc__\<close> is modelled: the class has no docstring, so the \<^verbatim>\<open>dataclass\<close> decorator
  sets it to the signature of the class. The text of the others depends on the
  interpreter (module name, object addresses), and \<open>getattr_user\<close> does not give it: every
  general statement below about the attribute a name reads is made for names that do not
  start with two underscores.
\<close>

definition special_name :: "string \<Rightarrow> bool" where
  "special_name key = (take 2 key = ''__'')"

definition user_doc :: string where
  "user_doc = ''User(srno: int, name: str, age: int, gender: str, occupation: str)''"

text \<open>\<^verbatim>\<open>getattr(entry, key, '')\<close>: the instance's own attributes first, then the class's,
  then the default.\<close>

definition getattr_user :: "user \<Rightarrow> string \<Rightarrow> pyval" where
  "getattr_user u key =
     (if key = ''srno'' then srno u
      else if key = ''name'' then name u
      else if key = ''age'' then age u
      else if key = ''gender'' then gender u
      else if key = ''occupation'' then occupation u
      else (case map_of (attrs u) key of
              Some v \<Rightarrow> v
            | None \<Rightarrow> if key = ''__doc__'' then PStr user_doc else PStr ''''))"

text \<open>\<^verbatim>\<open>setattr(user, field, val)\<close>.\<close>

fun attr_update :: "string \<Rightarrow> pyval \<Rightarrow> (string \<times> pyval) list \<Rightarrow> (string \<times> pyval) list" where
  "attr_update k v [] = [(k, v)]"
| "attr_update k v (p # ps) = (if fst p = k then (k, v) # ps else p # attr_update k v ps)"

definition setattr_user :: "user \<Rightarrow> string \<Rightarrow> pyval \<Rightarrow> user" where
  "setattr_user u field val =
     (if field = ''srno'' then u\<lparr>srno := val\<rparr>
      else if field = ''name'' then u\<lparr>name := val\<rparr>
      else if field = ''age'' then u\<lparr>age := val\<rparr>
      else if field = ''gender'' then u\<lparr>gender := val\<rparr>
      else if field = ''occupation'' then u\<lparr>occupation := val\<rparr>
      else u\<lparr>attrs := attr_update field val (attrs u)\<rparr>)"

text \<open>
  \<^verbatim>\<open>UserDatabase\<close>. The list \<^verbatim>\<open>entries\<close> and the dictionary \<^verbatim>\<open>srno_index\<close> hold references
  to the same \<^verbatim>\<open>User\<close> objects, so the objects live in a store (\<open>heap\<close>, addressed by
  position, an object never moves) and both views hold addresses. \<open>stdout\<close> collects the
  lines the two methods print.
\<close>

record db =
  heap :: "user list"
  entries :: "nat list"
  srno_index :: "int \<rightharpoonup> nat"
  stdout :: "string list"

definition empty_db :: db where
  "empty_db = \<lparr>heap = [], entries = [], srno_index = Map.empty, stdout = []\<rparr>"

section \<open>The operations\<close>

definition get_next_srno :: "db \<Rightarrow> int" where
  "get_next_srno s = int (length (entries s)) + 1"

text \<open>\<^verbatim>\<open>add_user\<close> has no \<^verbatim>\<open>return\<close> with a value: its result is \<^verbatim>\<open>None\<close> on both paths,
  modelled as \<^term>\<open>None :: nat option\<close> (a reference would be \<open>Some\<close> address).\<close>

definition add_user :: "string \<Rightarrow> pyval \<Rightarrow> string \<Rightarrow> string \<Rightarrow> db \<Rightarrow> nat option \<times> db" where
  "add_user nm ag gd oc s =
     (case py_int ag of
        Inl e \<Rightarrow>
          (None, s\<lparr>stdout := stdout s @ [''Error: Age must be a valid number. Entry aborted.'']\<rparr>)
      | Inr age_int \<Rightarrow>
          (let u = \<lparr>srno = PInt (get_next_srno s), name = PStr nm, age = PInt age_int,
                    gender = PStr gd, occupation = PStr oc, attrs = []\<rparr>;
               a = length (heap s);
               s1 = s\<lparr>heap := heap s @ [u]\<rparr>;
               s2 = s1\<lparr>entries := entries s1 @ [a]\<rparr>;
               s3 = s2\<lparr>srno_index := (srno_index s2)(get_next_srno s \<mapsto> a)\<rparr>
           in (None, s3)))"

text \<open>\<^verbatim>\<open>entry_value = str(getattr(entry, key, '')).lower()\<close>, and the linear scan of
  \<^verbatim>\<open>find_user\<close> that compares it with \<^verbatim>\<open>str(value).lower()\<close>.\<close>

definition entry_value :: "user \<Rightarrow> string \<Rightarrow> string" where
  "entry_value entry key = lower (py_str (getattr_user entry key))"

fun scan :: "user list \<Rightarrow> string \<Rightarrow> string \<Rightarrow> nat list \<Rightarrow> nat option" where
  "scan h key v [] = None"
| "scan h key v (a # as) =
     (if entry_value (h ! a) key = lower v then Some a else scan h key v as)"

definition find_user :: "string \<Rightarrow> string \<Rightarrow> db \<Rightarrow> nat option" where
  "find_user key v s =
     (if key = ''srno'' then
        (case py_int (PStr v) of
           Inr srno_val \<Rightarrow> srno_index s srno_val
         | Inl e \<Rightarrow> None)
      else scan (heap s) key v (entries s))"

text \<open>The loop of \<^verbatim>\<open>update_user\<close> over the items of \<^verbatim>\<open>new_data\<close>, in the dictionary's
  order, on the object at address \<open>a\<close>.\<close>

fun update_loop :: "nat \<Rightarrow> (string \<times> pyval) list \<Rightarrow> db \<Rightarrow> bool \<times> db" where
  "update_loop a [] s = (True, s)"
| "update_loop a ((field, val) # rest) s =
     (if field = ''age'' then
        (case py_int val of
           Inl e \<Rightarrow>
             (False,
              s\<lparr>stdout := stdout s @ [''Error: Update failed. Age must be a valid number.'']\<rparr>)
         | Inr n \<Rightarrow>
             update_loop a rest (s\<lparr>heap := (heap s)[a := setattr_user (heap s ! a) field (PInt n)]\<rparr>))
      else update_loop a rest (s\<lparr>heap := (heap s)[a := setattr_user (heap s ! a) field val]\<rparr>))"

definition update_user :: "string \<Rightarrow> string \<Rightarrow> (string \<times> pyval) list \<Rightarrow> db \<Rightarrow> bool \<times> db" where
  "update_user key v new_data s =
     (case find_user key v s of
        Some a \<Rightarrow> update_loop a new_data s
      | None \<Rightarrow> (False, s))"

text \<open>\<^verbatim>\<open>list.remove(x)\<close> drops the first element that is \<open>x\<close> itself or equal to it, and
  raises \<^verbatim>\<open>ValueError\<close> (here \<open>None\<close>) when there is none.\<close>

fun list_remove :: "user list \<Rightarrow> nat \<Rightarrow> nat list \<Rightarrow> nat list option" where
  "list_remove h a [] = None"
| "list_remove h a (b # bs) =
     (if b = a \<or> user_eq (h ! b) (h ! a) then Some bs
      else (case list_remove h a bs of None \<Rightarrow> None | Some rs \<Rightarrow> Some (b # rs)))"

text \<open>\<^verbatim>\<open>delete_user\<close>. An exception leaves the store as it was when it was raised.\<close>

definition delete_user :: "string \<Rightarrow> string \<Rightarrow> db \<Rightarrow> (error + bool) \<times> db" where
  "delete_user key v s =
     (case find_user key v s of
        None \<Rightarrow> (Inr False, s)
      | Some a \<Rightarrow>
          (case list_remove (heap s) a (entries s) of
             None \<Rightarrow> (Inl ValueError, s)
           | Some es \<Rightarrow>
               (let s1 = s\<lparr>entries := es\<rparr> in
                (case srno (heap s1 ! a) of
                   PStr t \<Rightarrow> (Inl KeyError, s1)
                 | PInt k \<Rightarrow>
                     (case srno_index s1 k of
                        None \<Rightarrow> (Inl KeyError, s1)
                      | Some b \<Rightarrow> (Inr True, s1\<lparr>srno_index := (srno_index s1)(k := None)\<rparr>))))))"

text \<open>\<^verbatim>\<open>display_all\<close> iterates \<^verbatim>\<open>entries\<close>: the records in enumeration order.\<close>

definition enumerate_db :: "db \<Rightarrow> user list" where
  "enumerate_db s = map (\<lambda>a. heap s ! a) (entries s)"

section \<open>Sequences of operations\<close>

datatype op =
    Create string pyval string string
  | Update string string "(string \<times> pyval) list"
  | Delete string string

fun step :: "op \<Rightarrow> db \<Rightarrow> db" where
  "step (Create nm ag gd oc) s = snd (add_user nm ag gd oc s)"
| "step (Update key v new_data) s = snd (update_user key v new_data s)"
| "step (Delete key v) s = snd (delete_user key v s)"

fun run :: "op list \<Rightarrow> db \<Rightarrow> db" where
  "run [] s = s"
| "run (x # xs) s = run xs (step x s)"

section \<open>Predicates on stores\<close>

text \<open>Every key of the index leads to a live object whose own \<^verbatim>\<open>srno\<close> is that key.\<close>

definition index_inv :: "db \<Rightarrow> bool" where
  "index_inv s =
     (\<forall>k a. srno_index s k = Some a \<longrightarrow> a < length (heap s) \<and> srno (heap s ! a) = PInt k)"

text \<open>An operation that does not assign \<^verbatim>\<open>srno\<close>: every create and delete, and an update
  whose \<^verbatim>\<open>new_data\<close> has no \<^verbatim>\<open>srno\<close> key.\<close>

fun keeps_srno :: "op \<Rightarrow> bool" where
  "keeps_srno (Update key v new_data) = (''srno'' \<notin> fst ` set new_data)"
| "keeps_srno (Create nm ag gd oc) = True"
| "keeps_srno (Delete key v) = True"

section \<open>Example stores\<close>

text \<open>The stores the concrete evaluations below start from, each built by the operations
  themselves.\<close>

definition alice_db :: db where
  "alice_db = run [Create ''Alice'' (PStr ''30'') ''F'' ''Engineer''] empty_db"

definition alice_bob_db :: db where
  "alice_bob_db =
     run [Create ''Alice'' (PStr ''30'') ''F'' ''Engineer'',
          Create ''Bob'' (PStr ''25'') ''M'' ''Doctor''] empty_db"

text \<open>A create after a delete: the third record is given the identifier the second holds.\<close>

definition reuse_db :: db where
  "reuse_db =
     run [Create ''Alice'' (PStr ''30'') ''F'' ''Engineer'',
          Create ''Bob'' (PStr ''25'') ''M'' ''Doctor'',
          Delete ''srno'' ''1'',
          Create ''Carol'' (PStr ''41'') ''F'' ''Pilot''] empty_db"

text \<open>The same, the third record created with the very field values of the second.\<close>

definition twin_db :: db where
  "twin_db =
     run [Create ''Alice'' (PStr ''30'') ''F'' ''Engineer'',
          Create ''Bob'' (PStr ''25'') ''M'' ''Doctor'',
          Delete ''srno'' ''1'',
          Create ''Bob'' (PStr ''25'') ''M'' ''Doctor''] empty_db"

text \<open>An update that names a field the dataclass does not declare.\<close>

definition nick_db :: db where
  "nick_db =
     run [Create ''Alice'' (PStr ''30'') ''F'' ''Engineer'',
          Update ''srno'' ''1'' [(''nick'', PStr ''Al'')]] empty_db"

text \<open>A record whose name begins with a capital above ASCII, 0xC9 (E with acute).\<close>

definition emile_db :: db where
  "emile_db = run [Create (CHR 0xC9 # ''mile'') (PStr ''52'') ''M'' ''Baker''] empty_db"

section \<open>What the update loop leaves alone\<close>

lemma srno_setattr_user: "field \<noteq> ''srno'' \<Longrightarrow> srno (setattr_user u field val) = srno u"
  by (simp add: setattr_user_def)

lemma nth_list_update_srno:
  "srno x = srno (h ! a) \<Longrightarrow> srno (h[a := x] ! b) = srno (h ! b)"
  by (cases "a < length h"; cases "b = a") (simp_all add: list_update_beyond)

lemma update_loop_frame:
  "update_loop a nd s = (r, s') \<Longrightarrow>
     length (heap s') = length (heap s) \<and> entries s' = entries s \<and>
     srno_index s' = srno_index s \<and> (\<forall>b. b \<noteq> a \<longrightarrow> heap s' ! b = heap s ! b)"
proof (induction a nd s rule: update_loop.induct)
  case (1 a s)
  then show ?case by simp
next
  case (2 a field val rest s)
  then show ?case
    by (auto split: if_splits sum.splits)
qed

lemma update_loop_srno:
  "''srno'' \<notin> fst ` set nd \<Longrightarrow> update_loop a nd s = (r, s') \<Longrightarrow>
     srno (heap s' ! b) = srno (heap s ! b)"
proof (induction a nd s rule: update_loop.induct)
  case (1 a s)
  then show ?case by simp
next
  case (2 a field val rest s)
  then show ?case
    by (auto split: if_splits sum.splits simp: nth_list_update_srno srno_setattr_user)
qed

section \<open>The linear scan\<close>

lemma scan_None:
  "scan h key v es = None \<longleftrightarrow> (\<forall>a \<in> set es. entry_value (h ! a) key \<noteq> lower v)"
  by (induction es) auto

lemma scan_Some:
  "scan h key v es = Some a \<longleftrightarrow>
     (\<exists>pre post. es = pre @ a # post \<and> entry_value (h ! a) key = lower v
        \<and> (\<forall>b \<in> set pre. entry_value (h ! b) key \<noteq> lower v))"
proof (induction es)
  case Nil
  then show ?case by simp
next
  case (Cons b bs)
  show ?case
  proof (cases "entry_value (h ! b) key = lower v")
    case True
    have "(\<exists>pre post. b # bs = pre @ a # post \<and> entry_value (h ! a) key = lower v
        \<and> (\<forall>c \<in> set pre. entry_value (h ! c) key \<noteq> lower v)) \<longleftrightarrow> a = b"
      using True by (auto simp: Cons_eq_append_conv)
    then show ?thesis using True by auto
  next
    case False
    have "(\<exists>pre post. b # bs = pre @ a # post \<and> entry_value (h ! a) key = lower v
        \<and> (\<forall>c \<in> set pre. entry_value (h ! c) key \<noteq> lower v)) \<longleftrightarrow>
      (\<exists>pre post. bs = pre @ a # post \<and> entry_value (h ! a) key = lower v
        \<and> (\<forall>c \<in> set pre. entry_value (h ! c) key \<noteq> lower v))"
      using False by (auto simp: Cons_eq_append_conv) (metis set_ConsD append_Cons)+
    then show ?thesis using False Cons.IH by simp
  qed
qed

lemma special_name_doc: "\<not> special_name key \<Longrightarrow> key \<noteq> ''__doc__''"
  by (auto simp: special_name_def)

lemma entry_value_unknown:
  "key \<notin> {''srno'', ''name'', ''age'', ''gender'', ''occupation''} \<Longrightarrow>
   \<not> special_name key \<Longrightarrow> key \<notin> fst ` set (attrs u) \<Longrightarrow> entry_value u key = ''''"
  by (auto simp: entry_value_def getattr_user_def py_str_def lower_def special_name_doc
      map_of_eq_None_iff[THEN iffD2] split: option.splits)

lemma entry_value_fields:
  "entry_value u ''name'' = lower (py_str (name u))"
  "entry_value u ''age'' = lower (py_str (age u))"
  "entry_value u ''gender'' = lower (py_str (gender u))"
  "entry_value u ''occupation'' = lower (py_str (occupation u))"
  by (simp_all add: entry_value_def getattr_user_def)

section \<open>The index invariant\<close>

lemma index_inv_add_user:
  assumes "index_inv s"
  shows "index_inv (snd (add_user nm ag gd oc s))"
proof (cases "py_int ag")
  case (Inl e)
  then show ?thesis using assms by (simp add: index_inv_def add_user_def)
next
  case (Inr n)
  have "a < Suc (length (heap s)) \<and> srno ((heap s @ [u]) ! a) = PInt k"
    if "srno_index s k = Some a" for k a u
  proof -
    from assms that have "a < length (heap s)" and "srno (heap s ! a) = PInt k"
      unfolding index_inv_def by blast+
    then show ?thesis by (simp add: nth_append)
  qed
  then show ?thesis using Inr
    by (simp add: index_inv_def add_user_def Let_def)
qed

lemma index_inv_update_user:
  assumes "index_inv s" and "''srno'' \<notin> fst ` set nd"
  shows "index_inv (snd (update_user key v nd s))"
proof (cases "find_user key v s")
  case None
  then show ?thesis using assms by (simp add: update_user_def)
next
  case (Some a)
  obtain r s' where rs: "update_loop a nd s = (r, s')" by (cases "update_loop a nd s")
  from update_loop_frame[OF rs] update_loop_srno[OF assms(2) rs] assms(1)
  have "index_inv s'" by (simp add: index_inv_def)
  then show ?thesis using Some rs by (simp add: update_user_def)
qed

lemma index_inv_delete_user: "index_inv s \<Longrightarrow> index_inv (snd (delete_user key v s))"
  by (auto simp: index_inv_def delete_user_def Let_def split: option.splits pyval.splits)

lemma index_inv_step: "index_inv s \<Longrightarrow> keeps_srno x \<Longrightarrow> index_inv (step x s)"
  by (cases x) (simp_all add: index_inv_add_user index_inv_update_user index_inv_delete_user)

lemma index_inv_run: "index_inv s \<Longrightarrow> \<forall>x \<in> set ops. keeps_srno x \<Longrightarrow> index_inv (run ops s)"
  by (induction ops arbitrary: s) (simp_all add: index_inv_step)

lemma index_inv_empty: "index_inv empty_db"
  by (simp add: index_inv_def empty_db_def)

lemmas eval_defs =
  reuse_db_def twin_db_def alice_db_def add_user_def delete_user_def find_user_def py_int_def
  strip_def is_space_def is_digit_def digit_val_def get_next_srno_def empty_db_def user_eq_def
  entry_value_def getattr_user_def py_str_def lower_def lower_char_def

section \<open>Update\<close>

text \<open>
  C1 (update atomicity). The property: when \<^verbatim>\<open>new_data\<close> carries an \<^verbatim>\<open>age\<close> that
  \<^verbatim>\<open>int()\<close> rejects, the update is rejected and the target record is left as it was.
  \<^verbatim>\<open>update_user\<close> walks \<^verbatim>\<open>new_data\<close> in order and assigns as it goes, so what stands
  before \<^verbatim>\<open>age\<close> is already written when the loop returns \<^verbatim>\<open>False\<close>. Evaluated on the store
  holding Alice with \<^verbatim>\<open>{'name': 'Bob', 'age': 'abc'}\<close> (the key order of
  \<^verbatim>\<open>get_user_input\<close>): the result is \<^verbatim>\<open>False\<close> and the name has become Bob.
\<close>

theorem update_user_partial_mutation:
  "find_user ''srno'' ''1'' alice_db = Some 0
   \<and> py_int (PStr ''abc'') = Inl ValueError
   \<and> fst (update_user ''srno'' ''1'' [(''name'', PStr ''Bob''), (''age'', PStr ''abc'')] alice_db)
       = False
   \<and> name (heap alice_db ! 0) = PStr ''Alice''
   \<and> name (heap (snd (update_user ''srno'' ''1''
                        [(''name'', PStr ''Bob''), (''age'', PStr ''abc'')] alice_db)) ! 0)
       = PStr ''Bob''"
  by code_simp

text \<open>
  C8 (identifier stability under update), as amended: when \<^verbatim>\<open>update_user\<close> resolves a
  record and \<^verbatim>\<open>new_data\<close> has no \<^verbatim>\<open>srno\<close> key, the record's \<^verbatim>\<open>srno\<close> is the same after the
  call as before, every other object is untouched, and \<^verbatim>\<open>entries\<close> and \<^verbatim>\<open>srno_index\<close> are
  unchanged.
\<close>

theorem update_user_keeps_srno:
  assumes "find_user key v s = Some a" and "''srno'' \<notin> fst ` set new_data"
  shows "srno (heap (snd (update_user key v new_data s)) ! a) = srno (heap s ! a)
    \<and> (\<forall>b. b \<noteq> a \<longrightarrow> heap (snd (update_user key v new_data s)) ! b = heap s ! b)
    \<and> length (heap (snd (update_user key v new_data s))) = length (heap s)
    \<and> entries (snd (update_user key v new_data s)) = entries s
    \<and> srno_index (snd (update_user key v new_data s)) = srno_index s"
proof -
  obtain r s' where rs: "update_loop a new_data s = (r, s')"
    by (cases "update_loop a new_data s")
  then have "snd (update_user key v new_data s) = s'"
    using assms(1) by (simp add: update_user_def)
  then show ?thesis
    using update_loop_frame[OF rs] update_loop_srno[OF assms(2) rs] by simp
qed

text \<open>C8, the amended statement at a concrete update of Alice in the store of Alice and
  Bob: her \<^verbatim>\<open>srno\<close> stays 1, Bob's record is the same object with the same fields.\<close>

theorem update_user_keeps_srno_witness:
  "find_user ''name'' ''alice'' alice_bob_db = Some 0
   \<and> ''srno'' \<notin> fst ` set [(''age'', PStr ''31''), (''name'', PStr ''Alicia'')]
   \<and> srno (heap (snd (update_user ''name'' ''alice''
              [(''age'', PStr ''31''), (''name'', PStr ''Alicia'')] alice_bob_db)) ! 0) = PInt 1
   \<and> heap (snd (update_user ''name'' ''alice''
              [(''age'', PStr ''31''), (''name'', PStr ''Alicia'')] alice_bob_db)) ! 1
       = heap alice_bob_db ! 1
   \<and> name (heap (snd (update_user ''name'' ''alice''
              [(''age'', PStr ''31''), (''name'', PStr ''Alicia'')] alice_bob_db)) ! 0)
       = PStr ''Alicia''"
proof -
  have f: "find_user ''name'' ''alice'' alice_bob_db = Some 0" by code_simp
  have n: "''srno'' \<notin> fst ` set [(''age'', PStr ''31''), (''name'', PStr ''Alicia'')]" by simp
  have i: "srno (heap alice_bob_db ! 0) = PInt 1" by code_simp
  have m: "name (heap (snd (update_user ''name'' ''alice''
              [(''age'', PStr ''31''), (''name'', PStr ''Alicia'')] alice_bob_db)) ! 0)
            = PStr ''Alicia''"
    by code_simp
  show ?thesis
    using f n i m update_user_keeps_srno [OF f n] by simp
qed

text \<open>C8 as stated fails: \<^verbatim>\<open>setattr\<close> assigns whatever field \<^verbatim>\<open>new_data\<close> names, \<^verbatim>\<open>srno\<close>
  included, and no conversion is applied to it. The update succeeds and the identifier of
  the record is the string \<^verbatim>\<open>'7'\<close> afterwards.\<close>

theorem update_user_srno_counterexample:
  "find_user ''srno'' ''1'' alice_db = Some 0
   \<and> srno (heap alice_db ! 0) = PInt 1
   \<and> fst (update_user ''srno'' ''1'' [(''srno'', PStr ''7'')] alice_db) = True
   \<and> srno (heap (snd (update_user ''srno'' ''1'' [(''srno'', PStr ''7'')] alice_db)) ! 0)
       = PStr ''7''"
  by code_simp

section \<open>Create\<close>

text \<open>
  C2 (identifier uniqueness). The property: after any sequence of creates, updates and
  deletes no two live records share an identifier. \<^verbatim>\<open>_get_next_srno\<close> returns
  \<^verbatim>\<open>len(self.entries) + 1\<close>, so after Alice (1) and Bob (2) are created and Alice is
  deleted, Carol is created with identifier 2: the two records in \<^verbatim>\<open>entries\<close> both carry 2.
\<close>

theorem add_user_reuses_live_srno:
  "entries reuse_db = [1, 2] \<and> srno (heap reuse_db ! 1) = PInt 2
   \<and> srno (heap reuse_db ! 2) = PInt 2"
  by code_simp

text \<open>
  C3 (index and sequence coherence). The property: after any sequence of operations the
  keys of \<^verbatim>\<open>srno_index\<close> are the identifiers of the records in \<^verbatim>\<open>entries\<close>, and each key
  leads to a record of \<^verbatim>\<open>entries\<close>. In the store above the only key, 2, leads to Carol; Bob
  is enumerated and no key leads to him. Deleting Bob by name then removes key 2: Carol stays
  in \<^verbatim>\<open>entries\<close> with identifier 2 and the index is empty.
\<close>

theorem index_and_entries_diverge:
  "entries reuse_db = [1, 2]
   \<and> dom (srno_index reuse_db) = {2}
   \<and> srno_index reuse_db 2 = Some 2
   \<and> entries (snd (delete_user ''name'' ''Bob'' reuse_db)) = [2]
   \<and> srno (heap (snd (delete_user ''name'' ''Bob'' reuse_db)) ! 2) = PInt 2
   \<and> dom (srno_index (snd (delete_user ''name'' ''Bob'' reuse_db))) = {}"
  by (simp add: eval_defs)

text \<open>
  C4 (create), as amended: when \<^verbatim>\<open>int(age)\<close> succeeds, \<^verbatim>\<open>add_user\<close> builds the record with
  identifier \<^verbatim>\<open>len(entries) + 1\<close>, appends it to \<^verbatim>\<open>entries\<close>, stores it in \<^verbatim>\<open>srno_index\<close>
  under that identifier, prints nothing, and returns \<^verbatim>\<open>None\<close>.
\<close>

theorem add_user_success:
  assumes "py_int ag = Inr n"
  shows "fst (add_user nm ag gd oc s) = None
    \<and> heap (snd (add_user nm ag gd oc s)) =
        heap s @ [\<lparr>srno = PInt (int (length (entries s)) + 1), name = PStr nm, age = PInt n,
                   gender = PStr gd, occupation = PStr oc, attrs = []\<rparr>]
    \<and> entries (snd (add_user nm ag gd oc s)) = entries s @ [length (heap s)]
    \<and> srno_index (snd (add_user nm ag gd oc s)) =
        (srno_index s)(int (length (entries s)) + 1 \<mapsto> length (heap s))
    \<and> stdout (snd (add_user nm ag gd oc s)) = stdout s"
  using assms by (simp add: add_user_def get_next_srno_def Let_def)

text \<open>C4, the amended statement at the two creates of the scenario. On the empty store
  Alice gets identifier 1, at address 0 of both views. On the store that holds her, Bob,
  whose age is typed with a blank and a line feed around it, gets identifier 2: he is
  appended behind her in \<^verbatim>\<open>entries\<close>, the index gains key 2 and keeps key 1, nothing is
  printed, and the result is \<^verbatim>\<open>None\<close>.\<close>

theorem add_user_success_witness:
  "py_int (PStr ''30'') = Inr 30
   \<and> fst (add_user ''Alice'' (PStr ''30'') ''F'' ''Engineer'' empty_db) = None
   \<and> heap (snd (add_user ''Alice'' (PStr ''30'') ''F'' ''Engineer'' empty_db)) =
        [\<lparr>srno = PInt 1, name = PStr ''Alice'', age = PInt 30,
                   gender = PStr ''F'', occupation = PStr ''Engineer'', attrs = []\<rparr>]
   \<and> entries (snd (add_user ''Alice'' (PStr ''30'') ''F'' ''Engineer'' empty_db)) = [0]
   \<and> srno_index (snd (add_user ''Alice'' (PStr ''30'') ''F'' ''Engineer'' empty_db)) 1 = Some 0
   \<and> py_int (PStr [CHR '' '', CHR ''2'', CHR ''5'', CHR 0x0A]) = Inr 25
   \<and> heap alice_db =
        [\<lparr>srno = PInt 1, name = PStr ''Alice'', age = PInt 30,
                   gender = PStr ''F'', occupation = PStr ''Engineer'', attrs = []\<rparr>]
   \<and> entries alice_db = [0]
   \<and> fst (add_user ''Bob'' (PStr [CHR '' '', CHR ''2'', CHR ''5'', CHR 0x0A]) ''M'' ''Doctor''
            alice_db) = None
   \<and> heap (snd (add_user ''Bob'' (PStr [CHR '' '', CHR ''2'', CHR ''5'', CHR 0x0A]) ''M''
                  ''Doctor'' alice_db)) =
        [\<lparr>srno = PInt 1, name = PStr ''Alice'', age = PInt 30,
                   gender = PStr ''F'', occupation = PStr ''Engineer'', attrs = []\<rparr>,
         \<lparr>srno = PInt 2, name = PStr ''Bob'', age = PInt 25,
                   gender = PStr ''M'', occupation = PStr ''Doctor'', attrs = []\<rparr>]
   \<and> entries (snd (add_user ''Bob'' (PStr [CHR '' '', CHR ''2'', CHR ''5'', CHR 0x0A]) ''M''
                     ''Doctor'' alice_db)) = [0, 1]
   \<and> srno_index (snd (add_user ''Bob'' (PStr [CHR '' '', CHR ''2'', CHR ''5'', CHR 0x0A]) ''M''
                        ''Doctor'' alice_db)) 2 = Some 1
   \<and> srno_index (snd (add_user ''Bob'' (PStr [CHR '' '', CHR ''2'', CHR ''5'', CHR 0x0A]) ''M''
                        ''Doctor'' alice_db)) 1 = Some 0
   \<and> stdout (snd (add_user ''Bob'' (PStr [CHR '' '', CHR ''2'', CHR ''5'', CHR 0x0A]) ''M''
                    ''Doctor'' alice_db)) = []"
proof -
  have a: "py_int (PStr ''30'') = Inr 30" by code_simp
  have b: "py_int (PStr [CHR '' '', CHR ''2'', CHR ''5'', CHR 0x0A]) = Inr 25" by code_simp
  have h: "heap alice_db =
        [\<lparr>srno = PInt 1, name = PStr ''Alice'', age = PInt 30,
                   gender = PStr ''F'', occupation = PStr ''Engineer'', attrs = []\<rparr>]"
    by code_simp
  have e: "entries alice_db = [0]" by code_simp
  have i: "srno_index alice_db 1 = Some 0" by code_simp
  have o: "stdout alice_db = []" by code_simp
  note first = add_user_success [OF a, of "''Alice''" "''F''" "''Engineer''" empty_db]
  note second = add_user_success [OF b, of "''Bob''" "''M''" "''Doctor''" alice_db]
  show ?thesis
    using a b h e first second
    by (simp add: empty_db_def i o)
qed

text \<open>C4 as stated fails in its last part: the created record is at address 0 of
  \<^verbatim>\<open>entries\<close>, and what \<^verbatim>\<open>add_user\<close> returns is \<^verbatim>\<open>None\<close>, not that record.\<close>

theorem add_user_returns_none_counterexample:
  "py_int (PStr ''30'') = Inr 30
   \<and> entries (snd (add_user ''Alice'' (PStr ''30'') ''F'' ''Engineer'' empty_db)) = [0]
   \<and> fst (add_user ''Alice'' (PStr ''30'') ''F'' ''Engineer'' empty_db) \<noteq> Some 0"
  by code_simp

text \<open>
  C5 (rejected create). The property: a create whose age does not parse raises nothing,
  creates nothing, leaves both views unchanged, and tells the caller through a result that
  differs from the one of a success. Evaluated on the empty store with age \<^verbatim>\<open>'abc'\<close>: the
  store is unchanged but for the printed line, and the result is \<^verbatim>\<open>None\<close>, which is also the
  result of the successful create.
\<close>

theorem add_user_rejection_returns_none:
  "py_int (PStr ''abc'') = Inl ValueError
   \<and> add_user ''Alice'' (PStr ''abc'') ''F'' ''Engineer'' empty_db =
       (None, empty_db\<lparr>stdout := [''Error: Age must be a valid number. Entry aborted.'']\<rparr>)
   \<and> fst (add_user ''Alice'' (PStr ''30'') ''F'' ''Engineer'' empty_db) = None"
  by (simp add: eval_defs)

section \<open>Find\<close>

text \<open>
  C6 (find by identifier). For every store, \<^verbatim>\<open>find_user('srno', value)\<close> returns \<^verbatim>\<open>None\<close>
  when \<^verbatim>\<open>int(value)\<close> raises, and otherwise what \<^verbatim>\<open>srno_index\<close> holds under that integer:
  the record, or \<^verbatim>\<open>None\<close> when the key is absent. No path raises.
\<close>

theorem find_user_srno:
  "(\<forall>e. py_int (PStr v) = Inl e \<longrightarrow> find_user ''srno'' v s = None)
   \<and> (\<forall>k. py_int (PStr v) = Inr k \<longrightarrow> find_user ''srno'' v s = srno_index s k)"
  by (simp add: find_user_def)

text \<open>C6 on the store holding Alice: \<^verbatim>\<open>'abc'\<close> does not parse and nothing is found;
  \<^verbatim>\<open>'1'\<close> finds her; \<^verbatim>\<open>'2'\<close> parses and is no key; \<^verbatim>\<open>'1'\<close> behind the separator 0x1C
  does not parse and nothing is found; \<^verbatim>\<open>'1'\<close> behind a tab and before a no-break space
  parses and finds her.\<close>

theorem find_user_srno_witness:
  "py_int (PStr ''abc'') = Inl ValueError
   \<and> find_user ''srno'' ''abc'' alice_db = None
   \<and> py_int (PStr ''1'') = Inr 1
   \<and> find_user ''srno'' ''1'' alice_db = Some 0
   \<and> py_int (PStr ''2'') = Inr 2
   \<and> find_user ''srno'' ''2'' alice_db = None
   \<and> py_int (PStr [CHR 0x1C, CHR ''1'']) = Inl ValueError
   \<and> find_user ''srno'' [CHR 0x1C, CHR ''1''] alice_db = None
   \<and> py_int (PStr [CHR 0x09, CHR ''1'', CHR 0xA0]) = Inr 1
   \<and> find_user ''srno'' [CHR 0x09, CHR ''1'', CHR 0xA0] alice_db = Some 0"
proof -
  have a: "py_int (PStr ''abc'') = Inl ValueError" by code_simp
  have b: "py_int (PStr ''1'') = Inr 1" by code_simp
  have c: "py_int (PStr ''2'') = Inr 2" by code_simp
  have d: "py_int (PStr [CHR 0x1C, CHR ''1'']) = Inl ValueError" by code_simp
  have e: "py_int (PStr [CHR 0x09, CHR ''1'', CHR 0xA0]) = Inr 1" by code_simp
  have i1: "srno_index alice_db 1 = Some 0" by code_simp
  have i2: "srno_index alice_db 2 = None" by code_simp
  note none_rule = find_user_srno [of "''abc''" alice_db, THEN conjunct1, rule_format, OF a]
  note one_rule = find_user_srno [of "''1''" alice_db, THEN conjunct2, rule_format, OF b]
  note two_rule = find_user_srno [of "''2''" alice_db, THEN conjunct2, rule_format, OF c]
  note sep_rule =
    find_user_srno [of "[CHR 0x1C, CHR ''1'']" alice_db, THEN conjunct1, rule_format, OF d]
  note tab_rule =
    find_user_srno [of "[CHR 0x09, CHR ''1'', CHR 0xA0]" alice_db, THEN conjunct2, rule_format,
      OF e]
  show ?thesis
    using a b c d e none_rule one_rule [unfolded i1] two_rule [unfolded i2] sep_rule
      tab_rule [unfolded i1]
    by (intro conjI)
qed

text \<open>
  C7 (find by another field), as amended: for a key other than \<^verbatim>\<open>srno\<close> that does not
  start with two underscores, \<^verbatim>\<open>find_user\<close> returns the first record of \<^verbatim>\<open>entries\<close> whose
  \<^verbatim>\<open>str(getattr(entry, key, '')).lower()\<close> equals \<^verbatim>\<open>value.lower()\<close>, and \<^verbatim>\<open>None\<close> when no
  record matches; for the four descriptive fields that text is the lowered rendering of the
  field; for a name that does not start with two underscores and is neither one of the five
  fields nor an attribute an earlier update has assigned to the record, it is the empty
  string. Field values and the search value are text of code points below 256.
\<close>

theorem find_user_by_field:
  "(key \<noteq> ''srno'' \<and> \<not> special_name key \<longrightarrow>
      (find_user key v s = None \<longleftrightarrow>
         (\<forall>a \<in> set (entries s). entry_value (heap s ! a) key \<noteq> lower v))
    \<and> (find_user key v s = Some a \<longleftrightarrow>
         (\<exists>pre post. entries s = pre @ a # post \<and> entry_value (heap s ! a) key = lower v
            \<and> (\<forall>b \<in> set pre. entry_value (heap s ! b) key \<noteq> lower v))))
   \<and> entry_value u ''name'' = lower (py_str (name u))
   \<and> entry_value u ''age'' = lower (py_str (age u))
   \<and> entry_value u ''gender'' = lower (py_str (gender u))
   \<and> entry_value u ''occupation'' = lower (py_str (occupation u))
   \<and> (key \<notin> {''srno'', ''name'', ''age'', ''gender'', ''occupation''}
        \<and> \<not> special_name key \<and> key \<notin> fst ` set (attrs u) \<longrightarrow> entry_value u key = '''')"
  using scan_None[of "heap s" key v "entries s"] scan_Some[of "heap s" key v "entries s" a]
    entry_value_unknown[of key u]
  by (simp add: find_user_def entry_value_fields)

text \<open>C7, on the stores of the scenario: \<^verbatim>\<open>find('name', 'BOB')\<close> is Bob, the second
  record, Alice before him not matching; \<^verbatim>\<open>find('name', 'ALICE')\<close> is the record created
  as \<^verbatim>\<open>'Alice'\<close>; nobody is called Carol; the record created with a name that begins with
  the capital 0xC9 is found under the name that begins with the small letter 0xE9; a name
  no record has reads as the empty string.\<close>

theorem find_user_by_field_witness:
  "''name'' \<noteq> ''srno''
   \<and> \<not> special_name ''name''
   \<and> entries alice_bob_db = [0] @ 1 # []
   \<and> entry_value (heap alice_bob_db ! 0) ''name'' \<noteq> lower ''BOB''
   \<and> entry_value (heap alice_bob_db ! 1) ''name'' = lower ''BOB''
   \<and> find_user ''name'' ''BOB'' alice_bob_db = Some 1
   \<and> find_user ''name'' ''ALICE'' alice_db = Some 0
   \<and> find_user ''name'' ''Carol'' alice_bob_db = None
   \<and> name (heap emile_db ! 0) = PStr (CHR 0xC9 # ''mile'')
   \<and> entry_value (heap emile_db ! 0) ''name'' = CHR 0xE9 # ''mile''
   \<and> find_user ''name'' (CHR 0xE9 # ''mile'') emile_db = Some 0
   \<and> ''nosuch'' \<notin> {''srno'', ''name'', ''age'', ''gender'', ''occupation''}
   \<and> \<not> special_name ''nosuch''
   \<and> ''nosuch'' \<notin> fst ` set (attrs (heap alice_db ! 0))
   \<and> entry_value (heap alice_db ! 0) ''nosuch'' = ''''"
proof -
  have k: "''name'' \<noteq> ''srno''" by simp
  have sp: "\<not> special_name ''name''" by (simp add: special_name_def)
  have e: "entries alice_bob_db = [0] @ 1 # []" by code_simp
  have n0: "entry_value (heap alice_bob_db ! 0) ''name'' \<noteq> lower ''BOB''" by code_simp
  have m1: "entry_value (heap alice_bob_db ! 1) ''name'' = lower ''BOB''" by code_simp
  have ex: "\<exists>pre post. entries alice_bob_db = pre @ 1 # post
              \<and> entry_value (heap alice_bob_db ! 1) ''name'' = lower ''BOB''
              \<and> (\<forall>b \<in> set pre. entry_value (heap alice_bob_db ! b) ''name'' \<noteq> lower ''BOB'')"
    using e n0 m1 by (intro exI[of _ "[0]"] exI[of _ "[]"]) simp
  note scan_rule =
    find_user_by_field [of "''name''" "''BOB''" alice_bob_db 1, THEN conjunct1, rule_format,
      OF conjI [OF k sp]]
  have bob: "find_user ''name'' ''BOB'' alice_bob_db = Some 1"
    by (rule scan_rule [THEN conjunct2, THEN iffD2, OF ex])
  have alice: "find_user ''name'' ''ALICE'' alice_db = Some 0" by code_simp
  have carol: "find_user ''name'' ''Carol'' alice_bob_db = None" by code_simp
  have en: "name (heap emile_db ! 0) = PStr (CHR 0xC9 # ''mile'')" by code_simp
  have ev: "entry_value (heap emile_db ! 0) ''name'' = CHR 0xE9 # ''mile''" by code_simp
  have ef: "find_user ''name'' (CHR 0xE9 # ''mile'') emile_db = Some 0" by code_simp
  have a0: "attrs (heap alice_db ! 0) = []" by code_simp
  have u1: "''nosuch'' \<notin> {''srno'', ''name'', ''age'', ''gender'', ''occupation''}" by simp
  have u2: "\<not> special_name ''nosuch''" by (simp add: special_name_def)
  have u3: "''nosuch'' \<notin> fst ` set (attrs (heap alice_db ! 0))" unfolding a0 by simp
  note dflt =
    find_user_by_field [of "''nosuch''" _ _ _ "heap alice_db ! 0", THEN conjunct2, THEN conjunct2,
      THEN conjunct2, THEN conjunct2, THEN conjunct2, rule_format,
      OF conjI [OF u1 conjI [OF u2 u3]]]
  have nos: "entry_value (heap alice_db ! 0) ''nosuch'' = ''''"
    by (rule dflt)
  show ?thesis
    by (intro conjI k sp e n0 m1 bob alice carol en ev ef u1 u2 u3 nos)
qed

text \<open>C7 as stated fails in its last part, in two ways. \<^verbatim>\<open>nick\<close> is not a field of the
  record, yet after an update has assigned it, \<^verbatim>\<open>getattr\<close> finds it on the instance: its
  text is \<^verbatim>\<open>'al'\<close>, a search for \<^verbatim>\<open>'AL'\<close> finds the record and a search for the empty
  string does not. \<^verbatim>\<open>__doc__\<close> is not a field either and no update has assigned it, yet
  \<^verbatim>\<open>getattr\<close> finds it on the class: its text is the lowered signature of the class, a
  search for that signature finds the record and a search for the empty string does not.\<close>

theorem find_user_unknown_field_counterexample:
  "''nick'' \<notin> {''srno'', ''name'', ''age'', ''gender'', ''occupation''}
   \<and> entries nick_db = [0]
   \<and> entry_value (heap nick_db ! 0) ''nick'' = ''al''
   \<and> find_user ''nick'' ''AL'' nick_db = Some 0
   \<and> find_user ''nick'' '''' nick_db = None
   \<and> ''__doc__'' \<notin> {''srno'', ''name'', ''age'', ''gender'', ''occupation''}
   \<and> entries alice_db = [0]
   \<and> attrs (heap alice_db ! 0) = []
   \<and> entry_value (heap alice_db ! 0) ''__doc__''
       = ''user(srno: int, name: str, age: int, gender: str, occupation: str)''
   \<and> find_user ''__doc__'' ''User(srno: int, name: str, age: int, gender: str, occupation: str)''
        alice_db = Some 0
   \<and> find_user ''__doc__'' '''' alice_db = None"
  by code_simp

section \<open>Delete\<close>

text \<open>
  C9 (delete removes from both views). The property: the record \<^verbatim>\<open>find_user\<close> resolves is
  removed from \<^verbatim>\<open>entries\<close> and its key from \<^verbatim>\<open>srno_index\<close>, so that it is no longer
  enumerated. \<^verbatim>\<open>entries.remove(user)\<close> removes the first element equal to \<^verbatim>\<open>user\<close>, and
  the dataclass compares field values. In the store where a second Bob was created with
  the identifier and the fields of the first, \<^verbatim>\<open>delete('srno', '2')\<close> resolves the second
  (address 2), returns \<^verbatim>\<open>True\<close>, and removes the first: the resolved record is still
  enumerated, and no key leads to it. Deleting it once more by name raises \<^verbatim>\<open>KeyError\<close>.
\<close>

theorem delete_user_removes_equal_record:
  "find_user ''srno'' ''2'' twin_db = Some 2
   \<and> entries twin_db = [1, 2]
   \<and> fst (delete_user ''srno'' ''2'' twin_db) = Inr True
   \<and> entries (snd (delete_user ''srno'' ''2'' twin_db)) = [2]
   \<and> srno_index (snd (delete_user ''srno'' ''2'' twin_db)) 2 = None
   \<and> fst (delete_user ''name'' ''Bob'' (snd (delete_user ''srno'' ''2'' twin_db))) = Inl KeyError"
  by code_simp

section \<open>Reachable stores\<close>

text \<open>
  C10. In every store reached from the empty one by creates, deletes and updates whose
  \<^verbatim>\<open>new_data\<close> has no \<^verbatim>\<open>srno\<close> key, each key \<open>k\<close> of \<^verbatim>\<open>srno_index\<close> leads to a record whose
  \<^verbatim>\<open>srno\<close> is \<open>k\<close>. A delete that raises leaves the store it had reached; the invariant
  holds there too.
\<close>

theorem index_inv_reachable:
  "\<forall>x \<in> set ops. keeps_srno x \<Longrightarrow> index_inv (run ops empty_db)"
  by (rule index_inv_run[OF index_inv_empty])

text \<open>C10 on the scenario: create Alice, create Bob, update Alice's age, delete Bob.\<close>

theorem index_inv_reachable_witness:
  "keeps_srno (Create ''Alice'' (PStr ''30'') ''F'' ''Engineer'')
   \<and> keeps_srno (Create ''Bob'' (PStr ''25'') ''M'' ''Doctor'')
   \<and> keeps_srno (Update ''name'' ''Alice'' [(''age'', PStr ''31'')])
   \<and> keeps_srno (Delete ''name'' ''Bob'')
   \<and> index_inv (run [Create ''Alice'' (PStr ''30'') ''F'' ''Engineer'',
                      Create ''Bob'' (PStr ''25'') ''M'' ''Doctor'',
                      Update ''name'' ''Alice'' [(''age'', PStr ''31'')],
                      Delete ''name'' ''Bob''] empty_db)
   \<and> srno_index (run [Create ''Alice'' (PStr ''30'') ''F'' ''Engineer'',
                      Create ''Bob'' (PStr ''25'') ''M'' ''Doctor'',
                      Update ''name'' ''Alice'' [(''age'', PStr ''31'')],
                      Delete ''name'' ''Bob''] empty_db) 1 = Some 0
   \<and> srno (heap (run [Create ''Alice'' (PStr ''30'') ''F'' ''Engineer'',
                      Create ''Bob'' (PStr ''25'') ''M'' ''Doctor'',
                      Update ''name'' ''Alice'' [(''age'', PStr ''31'')],
                      Delete ''name'' ''Bob''] empty_db) ! 0) = PInt 1"
proof -
  let ?ops = "[Create ''Alice'' (PStr ''30'') ''F'' ''Engineer'',
               Create ''Bob'' (PStr ''25'') ''M'' ''Doctor'',
               Update ''name'' ''Alice'' [(''age'', PStr ''31'')],
               Delete ''name'' ''Bob'']"
  have ks: "\<forall>x \<in> set ?ops. keeps_srno x" by simp
  have idx: "srno_index (run ?ops empty_db) 1 = Some 0" by code_simp
  have inv: "index_inv (run ?ops empty_db)"
    by (rule index_inv_reachable [OF ks])
  have "srno (heap (run ?ops empty_db) ! 0) = PInt 1"
    using inv idx unfolding index_inv_def by blast
  then show ?thesis
    using ks idx inv by simp
qed

end
